theory Spec2Isabelle
  imports Complex_Main
begin

section \<open>Numbers of the source\<close>

text \<open>
  A number of the source is an IEEE double. The model keeps the finite values as reals
  (rounding, overflow and the sign of zero are not modelled) and the three special
  values, so that a division by zero and an arithmetic operation on \<open>undefined\<close> are
  visible in the result instead of being some unspecified real.
\<close>

datatype jsnum = Num real | PosInf | NegInf | NaN

fun js_add :: "jsnum \<Rightarrow> jsnum \<Rightarrow> jsnum" where
  "js_add (Num a) (Num b) = Num (a + b)"
| "js_add NaN _ = NaN"
| "js_add _ NaN = NaN"
| "js_add PosInf NegInf = NaN"
| "js_add NegInf PosInf = NaN"
| "js_add PosInf _ = PosInf"
| "js_add _ PosInf = PosInf"
| "js_add NegInf _ = NegInf"
| "js_add _ NegInf = NegInf"

definition inf_of_sign :: "real \<Rightarrow> jsnum" where
  "inf_of_sign a = (if a = 0 then NaN else if 0 < a then PosInf else NegInf)"

fun js_mul :: "jsnum \<Rightarrow> jsnum \<Rightarrow> jsnum" where
  "js_mul (Num a) (Num b) = Num (a * b)"
| "js_mul NaN _ = NaN"
| "js_mul _ NaN = NaN"
| "js_mul (Num a) PosInf = inf_of_sign a"
| "js_mul (Num a) NegInf = inf_of_sign (- a)"
| "js_mul PosInf (Num b) = inf_of_sign b"
| "js_mul NegInf (Num b) = inf_of_sign (- b)"
| "js_mul PosInf PosInf = PosInf"
| "js_mul NegInf NegInf = PosInf"
| "js_mul PosInf NegInf = NegInf"
| "js_mul NegInf PosInf = NegInf"

text \<open>
  Division never throws: a finite nonzero number divided by zero is an infinity, and
  \<open>0 / 0\<close> is \<open>NaN\<close>. (With the sign of zero left out, the zero divisor counts as
  \<open>+0\<close>.)
\<close>

fun js_div :: "jsnum \<Rightarrow> jsnum \<Rightarrow> jsnum" where
  "js_div (Num a) (Num b) = (if b = 0 then inf_of_sign a else Num (a / b))"
| "js_div NaN _ = NaN"
| "js_div _ NaN = NaN"
| "js_div (Num a) PosInf = Num 0"
| "js_div (Num a) NegInf = Num 0"
| "js_div PosInf (Num b) = (if 0 \<le> b then PosInf else NegInf)"
| "js_div NegInf (Num b) = (if 0 \<le> b then NegInf else PosInf)"
| "js_div PosInf PosInf = NaN"
| "js_div PosInf NegInf = NaN"
| "js_div NegInf PosInf = NaN"
| "js_div NegInf NegInf = NaN"

text \<open>The comparison \<open><\<close>: false as soon as one side is \<open>NaN\<close>.\<close>

fun js_lt :: "jsnum \<Rightarrow> jsnum \<Rightarrow> bool" where
  "js_lt (Num a) (Num b) = (a < b)"
| "js_lt NaN _ = False"
| "js_lt _ NaN = False"
| "js_lt NegInf NegInf = False"
| "js_lt NegInf _ = True"
| "js_lt _ NegInf = False"
| "js_lt PosInf _ = False"
| "js_lt _ PosInf = True"

definition js_gt :: "jsnum \<Rightarrow> jsnum \<Rightarrow> bool" where
  "js_gt a b = js_lt b a"

text \<open>A number is falsy when it is zero or \<open>NaN\<close>.\<close>

fun num_truthy :: "jsnum \<Rightarrow> bool" where
  "num_truthy (Num a) = (a \<noteq> 0)"
| "num_truthy NaN = False"
| "num_truthy PosInf = True"
| "num_truthy NegInf = True"

section \<open>Cost calculator (the component after \<open>ToastContainer.vue\<close>)\<close>

text \<open>
  Strings are lists of 8-bit characters (the source's strings restricted to code units
  below 256). The white space of \<open>trim\<close> and of the pattern \<open>\s\<close> in that range: tab,
  line feed, vertical tab, form feed, carriage return, space and no-break space.
\<close>

definition is_space :: "char \<Rightarrow> bool" where
  "is_space c = (c \<in> set [CHR 0x09, CHR 0x0A, CHR 0x0B, CHR 0x0C, CHR 0x0D, CHR 0x20, CHR 0xA0])"

definition trim :: "string \<Rightarrow> string" where
  "trim s = rev (dropWhile is_space (rev (dropWhile is_space s)))"

text \<open>
  \<open>s.split(/\s+/)\<close>: the pieces of \<open>s\<close> between maximal runs of white space. The empty
  string gives one empty piece; a run at either end gives an empty piece there.
\<close>

function split_ws :: "string \<Rightarrow> string list" where
  "split_ws s =
     (let piece = takeWhile (\<lambda>c. \<not> is_space c) s;
          rest = dropWhile (\<lambda>c. \<not> is_space c) s
      in if rest = [] then [piece] else piece # split_ws (dropWhile is_space rest))"
  by pat_completeness auto
termination
proof (relation "measure length")
  show "wf (measure length)" by simp
next
  fix s :: string and piece rest
  assume r: "rest = dropWhile (\<lambda>c. \<not> is_space c) s" and ne: "rest \<noteq> []"
  from ne obtain c cs where rest: "rest = c # cs" by (cases rest) auto
  have "length (dropWhile is_space rest) \<le> length rest"
    by (rule length_dropWhile_le)
  moreover have "is_space c"
    using r rest by (metis hd_dropWhile list.sel(1) ne)
  then have "length (dropWhile is_space rest) < length rest"
    using rest length_dropWhile_le [of is_space cs] by simp
  moreover have "length rest \<le> length s"
    unfolding r by (rule length_dropWhile_le)
  ultimately show "(dropWhile is_space rest, s) \<in> measure length" by simp
qed

record Pricing =
  pricing_name :: string
  pricing_input :: real
  pricing_output :: real

text \<open>The price table, per 1K tokens, in the order of the source.\<close>

definition modelPricing :: "(string \<times> Pricing) list" where
  "modelPricing =
     [(''mistral-small-latest'',
         \<lparr>pricing_name = ''Mistral Small'', pricing_input = 0.002, pricing_output = 0.006\<rparr>),
      (''mistral-medium-latest'',
         \<lparr>pricing_name = ''Mistral Medium'', pricing_input = 0.0027, pricing_output = 0.0081\<rparr>),
      (''mistral-large-latest'',
         \<lparr>pricing_name = ''Mistral Large'', pricing_input = 0.004, pricing_output = 0.012\<rparr>),
      (''open-mistral-7b'',
         \<lparr>pricing_name = ''Open Mistral 7B'', pricing_input = 0.00025, pricing_output = 0.00025\<rparr>),
      (''open-mixtral-8x7b'',
         \<lparr>pricing_name = ''Open Mixtral 8x7B'', pricing_input = 0.0007, pricing_output = 0.0007\<rparr>),
      (''open-mixtral-8x22b'',
         \<lparr>pricing_name = ''Open Mixtral 8x22B'', pricing_input = 0.002, pricing_output = 0.006\<rparr>)]"

text \<open>
  The table is an object literal, and \<open>modelPricing[props.model]\<close> is a property read
  on it: a key that is not a property of the literal itself is looked up in
  \<open>Object.prototype\<close>, whose members are inherited by every object literal. The list
  gives each member with the \<open>name\<close> property of its value (the members are functions,
  but for \<open>__proto__\<close>, whose value is \<open>Object.prototype\<close> itself and has no \<open>name\<close>).
  None of these values has a property \<open>input\<close> or \<open>output\<close>.
\<close>

definition Object_prototype :: "(string \<times> string option) list" where
  "Object_prototype =
     [(''constructor'', Some ''Object''),
      (''hasOwnProperty'', Some ''hasOwnProperty''),
      (''isPrototypeOf'', Some ''isPrototypeOf''),
      (''propertyIsEnumerable'', Some ''propertyIsEnumerable''),
      (''toLocaleString'', Some ''toLocaleString''),
      (''toString'', Some ''toString''),
      (''valueOf'', Some ''valueOf''),
      (''__defineGetter__'', Some ''__defineGetter__''),
      (''__defineSetter__'', Some ''__defineSetter__''),
      (''__lookupGetter__'', Some ''__lookupGetter__''),
      (''__lookupSetter__'', Some ''__lookupSetter__''),
      (''__proto__'', None)]"

datatype pricing_lookup =
    Undefined
  | Own Pricing
  | Inherited "string option"

definition modelPricing_at :: "string \<Rightarrow> pricing_lookup" where
  "modelPricing_at key =
     (case map_of modelPricing key of
        Some p \<Rightarrow> Own p
      | None \<Rightarrow>
          (case map_of Object_prototype key of
             Some n \<Rightarrow> Inherited n
           | None \<Rightarrow> Undefined))"

text \<open>
  The properties read from the result of the lookup, as the operand of an arithmetic
  operation: a property that is not there is \<open>undefined\<close>, which is \<open>NaN\<close> as a number.
\<close>

fun input_of :: "pricing_lookup \<Rightarrow> jsnum" where
  "input_of (Own p) = Num (pricing_input p)"
| "input_of _ = NaN"

fun output_of :: "pricing_lookup \<Rightarrow> jsnum" where
  "output_of (Own p) = Num (pricing_output p)"
| "output_of _ = NaN"

fun name_of :: "pricing_lookup \<Rightarrow> string option" where
  "name_of (Own p) = Some (pricing_name p)"
| "name_of (Inherited n) = n"
| "name_of Undefined = None"

record CostProps =
  cp_prompt :: string
  cp_model :: string
  cp_maxTokens :: real
  cp_runs :: real

text \<open>
  \<open>Math.ceil(words * 1.3)\<close>, with \<open>words\<close> the number of pieces of the trimmed prompt.
  (On doubles the product rounds to the same ceiling.)
\<close>

definition estimatedInputTokens :: "string \<Rightarrow> nat" where
  "estimatedInputTokens prompt =
     (let words = length (split_ws (trim prompt))
      in nat \<lceil>real words * 1.3\<rceil>)"

text \<open>
  The words of a prompt, counted directly: the maximal runs of characters that are not
  white space. \<open>count_words in_word s\<close> reads \<open>s\<close> from the left and counts a word at
  its first character.
\<close>

fun count_words :: "bool \<Rightarrow> string \<Rightarrow> nat" where
  "count_words in_word [] = 0"
| "count_words in_word (c # cs) =
     (if is_space c then count_words False cs
      else (if in_word then 0 else 1) + count_words True cs)"

definition word_count :: "string \<Rightarrow> nat" where
  "word_count s = count_words False s"

text \<open>A string with no white space at either end.\<close>

definition bare :: "string \<Rightarrow> bool" where
  "bare t = (t = [] \<or> (\<not> is_space (hd t) \<and> \<not> is_space (last t)))"

text \<open>
  The three computed costs. \<open>inputCost\<close> reads the computed \<open>estimatedInputTokens\<close>;
  here it takes that value as its second argument.
\<close>

definition inputCost :: "string \<Rightarrow> real \<Rightarrow> jsnum" where
  "inputCost model tokens =
     (let pricing = modelPricing_at model
      in if pricing = Undefined then Num 0
         else js_mul (js_div (Num tokens) (Num 1000)) (input_of pricing))"

definition outputCost :: "string \<Rightarrow> real \<Rightarrow> jsnum" where
  "outputCost model maxTokens =
     (let pricing = modelPricing_at model
      in if pricing = Undefined then Num 0
         else js_mul (js_div (Num maxTokens) (Num 1000)) (output_of pricing))"

definition totalCost :: "string \<Rightarrow> real \<Rightarrow> real \<Rightarrow> jsnum" where
  "totalCost model tokens maxTokens = js_add (inputCost model tokens) (outputCost model maxTokens)"

text \<open>The component: the total cost of its properties.\<close>

definition calculator_totalCost :: "CostProps \<Rightarrow> jsnum" where
  "calculator_totalCost props =
     totalCost (cp_model props) (real (estimatedInputTokens (cp_prompt props)))
       (cp_maxTokens props)"

text \<open>
  The line of the template that names the model:
  \<open>modelPricing[model]?.name || 'Unknown model'\<close>.
\<close>

definition pricing_label :: "string \<Rightarrow> string" where
  "pricing_label model =
     (case name_of (modelPricing_at model) of
        Some n \<Rightarrow> (if n = [] then ''Unknown model'' else n)
      | None \<Rightarrow> ''Unknown model'')"

text \<open>The warning box of the template is shown when \<open>totalCost * runs > 0.01\<close>.\<close>

definition high_cost_warning :: "CostProps \<Rightarrow> bool" where
  "high_cost_warning props =
     js_gt (js_mul (calculator_totalCost props) (Num (cp_runs props))) (Num 0.01)"

section \<open>Variance chart (\<open>VarianceChart.vue\<close>)\<close>

text \<open>
  The statistics arrive as JSON, so each field is a finite number;
  \<open>coefficient_of_variation\<close> is optional.
\<close>

record VarianceStats =
  vs_mean :: real
  vs_median :: real
  vs_std_dev :: real
  vs_min :: real
  vs_max :: real
  vs_p25 :: real
  vs_p50 :: real
  vs_p75 :: real
  vs_p95 :: real
  vs_coefficient_of_variation :: "real option"

datatype VarianceQuality = Excellent | Good | Moderate | Poor

text \<open>
  \<open>props.stats.coefficient_of_variation || (props.stats.std_dev / props.stats.mean)\<close>:
  the right operand is evaluated when the field is absent or zero.
\<close>

definition cv :: "VarianceStats \<Rightarrow> jsnum" where
  "cv stats =
     (case vs_coefficient_of_variation stats of
        Some c \<Rightarrow>
          (if num_truthy (Num c) then Num c
           else js_div (Num (vs_std_dev stats)) (Num (vs_mean stats)))
      | None \<Rightarrow> js_div (Num (vs_std_dev stats)) (Num (vs_mean stats)))"

definition varianceQuality :: "VarianceStats \<Rightarrow> VarianceQuality" where
  "varianceQuality stats =
     (if js_lt (cv stats) (Num 0.05) then Excellent
      else if js_lt (cv stats) (Num 0.1) then Good
      else if js_lt (cv stats) (Num 0.2) then Moderate
      else Poor)"

section \<open>API client (\<open>useApi.ts\<close>)\<close>

text \<open>
  A parsed JSON text. An object keeps its members in the order of the text. A number
  comes with the text the language prints for it (\<open>String(x)\<close>); the model does not
  compute that text.
\<close>

datatype json =
    JNull
  | JBool bool
  | JNumber real string
  | JString string
  | JArray "json list"
  | JObject "(string \<times> json) list"

fun truthy :: "json \<Rightarrow> bool" where
  "truthy JNull = False"
| "truthy (JBool b) = b"
| "truthy (JNumber x text) = (x \<noteq> 0)"
| "truthy (JString s) = (s \<noteq> [])"
| "truthy (JArray _) = True"
| "truthy (JObject _) = True"

text \<open>
  Reading a property of a parsed value, for a key that no prototype defines (the keys
  read below are \<open>token\<close>, \<open>detail\<close>, \<open>metrics\<close>, \<open>quality\<close> and \<open>overall_score\<close>):
  on \<open>null\<close> the read throws a \<open>TypeError\<close>; on an object the last member with that
  key counts; everything else has no such property.
\<close>

datatype property_read = Throws | Missing | Value json

fun property :: "json \<Rightarrow> string \<Rightarrow> property_read" where
  "property JNull key = Throws"
| "property (JObject members) key =
     (case map_of (rev members) key of Some v \<Rightarrow> Value v | None \<Rightarrow> Missing)"
| "property _ key = Missing"

text \<open>
  \<open>String(v)\<close> for a parsed value, which is what \<open>new Error(v)\<close> keeps as its message: a
  string is itself, an object is \<open>[object Object]\<close>, and an array is the texts of its
  elements joined by commas, a \<open>null\<close> element giving the empty text.
\<close>

fun to_string :: "json \<Rightarrow> string" and join_elements :: "json list \<Rightarrow> string" where
  "to_string JNull = ''null''"
| "to_string (JBool b) = (if b then ''true'' else ''false'')"
| "to_string (JNumber x text) = text"
| "to_string (JString s) = s"
| "to_string (JArray vs) = join_elements vs"
| "to_string (JObject members) = ''[object Object]''"
| "join_elements [] = []"
| "join_elements [v] = (if v = JNull then [] else to_string v)"
| "join_elements (v # w # ws) =
     (if v = JNull then [] else to_string v) @ '','' @ join_elements (w # ws)"

text \<open>
  What can be thrown: an \<open>Error\<close> with its message, a \<open>TypeError\<close> (a rejected
  \<open>fetch\<close>, a property read on \<open>null\<close> or \<open>undefined\<close>) and the \<open>SyntaxError\<close> of a
  body that is not JSON.
\<close>

datatype exn = Error string | TypeError | SyntaxError

text \<open>
  What \<open>fetch\<close> gives: a rejection, or a response with its status and its body as
  \<open>response.json()\<close> reads it (\<open>None\<close> when the body is not JSON).
\<close>

datatype fetch_result = Rejected | Response nat "json option"

definition ok :: "nat \<Rightarrow> bool" where
  "ok status = (200 \<le> status \<and> status \<le> 299)"

definition digit :: "nat \<Rightarrow> char" where
  "digit d = ''0123456789'' ! d"

fun decimal :: "nat \<Rightarrow> string" where
  "decimal n = (if n < 10 then [digit n] else decimal (n div 10) @ [digit (n mod 10)])"

text \<open>
  \<open>apiFetch\<close>, given what \<open>fetch\<close> gave. On a response that is not ok:
  \<open>error = await response.json().catch(() => ({ detail: 'Unknown error' }))\<close>, then
  \<open>throw new Error(error.detail || `HTTP ${response.status}`)\<close>.
\<close>

definition apiFetch :: "fetch_result \<Rightarrow> exn + json" where
  "apiFetch r =
     (case r of
        Rejected \<Rightarrow> Inl TypeError
      | Response status body \<Rightarrow>
          (if \<not> ok status then
             (let error = (case body of
                             Some j \<Rightarrow> j
                           | None \<Rightarrow> JObject [(''detail'', JString ''Unknown error'')])
              in case property error ''detail'' of
                   Throws \<Rightarrow> Inl TypeError
                 | Missing \<Rightarrow> Inl (Error (''HTTP '' @ decimal status))
                 | Value d \<Rightarrow>
                     (if truthy d then Inl (Error (to_string d))
                      else Inl (Error (''HTTP '' @ decimal status))))
           else (case body of Some j \<Rightarrow> Inr j | None \<Rightarrow> Inl SyntaxError)))"

subsection \<open>The streamed response\<close>

text \<open>\<open>text.split('\n')\<close>: the pieces between line feeds, one more than there are line feeds.\<close>

fun split_lines :: "string \<Rightarrow> string list" where
  "split_lines [] = [[]]"
| "split_lines (c # cs) =
     (if c = CHR 0x0A then [] # split_lines cs
      else (case split_lines cs of
              l # ls \<Rightarrow> (c # l) # ls
            | [] \<Rightarrow> [[c]]))"

text \<open>
  One line of a chunk. \<open>JSON.parse\<close> is a parameter: \<open>None\<close> when it throws. Everything
  thrown inside the \<open>try\<close> is swallowed by the empty \<open>catch\<close>.
\<close>

datatype line_result = Done | Yields "json list"

definition process_line :: "(string \<Rightarrow> json option) \<Rightarrow> string \<Rightarrow> line_result" where
  "process_line parse line =
     (if take 6 line = ''data: '' then
        (let data = drop 6 line
         in if data = ''[DONE]'' then Done
            else (case parse data of
                    None \<Rightarrow> Yields []
                  | Some parsed \<Rightarrow>
                      (case property parsed ''token'' of
                         Throws \<Rightarrow> Yields []
                       | Missing \<Rightarrow> Yields []
                       | Value token \<Rightarrow> (if truthy token then Yields [token] else Yields []))))
      else Yields [])"

text \<open>
  The \<open>for\<close> loop over the lines of one chunk: what it yields, and whether it returned
  from the generator.
\<close>

fun process_lines :: "(string \<Rightarrow> json option) \<Rightarrow> string list \<Rightarrow> json list \<times> bool" where
  "process_lines parse [] = ([], False)"
| "process_lines parse (line # lines) =
     (case process_line parse line of
        Done \<Rightarrow> ([], True)
      | Yields ys \<Rightarrow>
          (let (zs, returned) = process_lines parse lines in (ys @ zs, returned)))"

text \<open>
  The \<open>while\<close> loop over the chunks the reader gives until it reports \<open>done\<close>: a finite
  list, each chunk taken as the text \<open>decoder.decode(value)\<close> makes of it. (A reader
  that fails, or that never reports \<open>done\<close>, is outside the model.)
\<close>

fun read_loop :: "(string \<Rightarrow> json option) \<Rightarrow> string list \<Rightarrow> json list" where
  "read_loop parse [] = []"
| "read_loop parse (chunk # chunks) =
     (let (ys, returned) = process_lines parse (split_lines chunk)
      in if returned then ys else ys @ read_loop parse chunks)"

text \<open>The body of the response: absent, or the chunks its reader gives.\<close>

definition streamEvaluate :: "(string \<Rightarrow> json option) \<Rightarrow> string list option \<Rightarrow> json list" where
  "streamEvaluate parse body =
     (case body of None \<Rightarrow> [] | Some chunks \<Rightarrow> read_loop parse chunks)"

text \<open>
  The stream as the interface describes it. Its text is the text of the reads put
  together; its lines are the lines of that text, wherever the reads happened to cut it;
  a data line is well formed when it parses to an object with a truthy \<open>token\<close>; the
  tokens of the stream are those of the well-formed data lines before the end-of-stream
  line.
\<close>

definition token_of_line :: "(string \<Rightarrow> json option) \<Rightarrow> string \<Rightarrow> json option" where
  "token_of_line parse line =
     (if take 6 line = ''data: '' then
        (case parse (drop 6 line) of
           None \<Rightarrow> None
         | Some parsed \<Rightarrow>
             (case property parsed ''token'' of
                Value token \<Rightarrow> (if truthy token then Some token else None)
              | _ \<Rightarrow> None))
      else None)"

definition tokens_until_done :: "(string \<Rightarrow> json option) \<Rightarrow> string list \<Rightarrow> json list" where
  "tokens_until_done parse chunks =
     List.map_filter (token_of_line parse)
       (takeWhile (\<lambda>line. line \<noteq> ''data: [DONE]'') (split_lines (concat chunks)))"

text \<open>
  What the loops compute, said without loops: the same, but on the lines of each read
  taken by itself.
\<close>

definition tokens_read_by_read :: "(string \<Rightarrow> json option) \<Rightarrow> string list \<Rightarrow> json list" where
  "tokens_read_by_read parse chunks =
     List.map_filter (token_of_line parse)
       (takeWhile (\<lambda>line. line \<noteq> ''data: [DONE]'') (concat (map split_lines chunks)))"

text \<open>A read that ends where a line ends (or gives nothing).\<close>

definition whole_lines :: "string \<Rightarrow> bool" where
  "whole_lines chunk = (chunk = [] \<or> last chunk = CHR 0x0A)"

section \<open>Evaluation history kept in the browser (\<open>useLocalStorage\<close>)\<close>


text \<open>The argument of \<open>addToHistory\<close>: an entry without \<open>id\<close> and \<open>timestamp\<close>.\<close>

record HistoryItem =
  item_prompt :: string
  item_model :: string
  item_score :: "json option"
  item_temperature :: "real option"









section \<open>Requests of the API client\<close>

record EvalPrompt =
  ep_prompt :: string
  ep_expected_style :: "string option"
  ep_reference_answer :: "string option"
  ep_category :: "string option"

text \<open>
  The object the evaluation page passes to \<open>evaluate\<close>: the fields of \<open>EvalRequest\<close> and,
  beside them, \<open>judge_model\<close> and \<open>runs\<close>; \<open>JSON.stringify\<close> sends them all.
\<close>

record EvalRequest =
  rq_prompt :: EvalPrompt
  rq_model :: string
  rq_judge_model :: string
  rq_temperature :: real
  rq_max_tokens :: real
  rq_runs :: real

record CompareRequest =
  cr_prompt :: EvalPrompt
  cr_model_a :: string
  cr_model_b :: string
  cr_temperature :: real
  cr_max_tokens :: real

text \<open>A call of \<open>fetch\<close>: the method, the endpoint and the body.\<close>

datatype request_body = EvaluateBody EvalRequest | CompareBody CompareRequest

datatype http_request = Post string request_body

text \<open>
  \<open>evaluate\<close> and \<open>compare\<close>: one \<open>fetch\<close> each, through \<open>apiFetch\<close>. The network (what
  \<open>fetch\<close> gives for a request) is a parameter.
\<close>

definition evaluate :: "(http_request \<Rightarrow> fetch_result) \<Rightarrow> EvalRequest \<Rightarrow> exn + json" where
  "evaluate network request = apiFetch (network (Post ''/evaluate'' (EvaluateBody request)))"

definition compare :: "(http_request \<Rightarrow> fetch_result) \<Rightarrow> CompareRequest \<Rightarrow> exn + json" where
  "compare network request = apiFetch (network (Post ''/compare'' (CompareBody request)))"

section \<open>What the pages do\<close>

text \<open>
  A handler of a page returns the new state of the page and, in order, what it did
  outside it: the requests sent, the entries added to the history, the toasts and the
  console messages.
\<close>

datatype effect =
    Fetch http_request
  | AddToHistory HistoryItem
  | ToastSuccess string
  | ToastError string exn
  | ConsoleError string exn

subsection \<open>Comparison page (\<open>compare.vue\<close>)\<close>

record ComparePage =
  cmp_prompt :: string
  cmp_modelA :: string
  cmp_modelB :: string
  cmp_temperature :: real
  cmp_maxTokens :: real
  cmp_loading :: bool
  cmp_result :: "json option"

definition runComparison ::
  "(http_request \<Rightarrow> fetch_result) \<Rightarrow> ComparePage \<Rightarrow> ComparePage \<times> effect list" where
  "runComparison network s =
     (if trim (cmp_prompt s) = [] \<or> cmp_modelA s = cmp_modelB s then (s, [])
      else
        (let s1 = s\<lparr>cmp_loading := True, cmp_result := None\<rparr>;
             request =
               \<lparr>cr_prompt = \<lparr>ep_prompt = cmp_prompt s, ep_expected_style = None,
                               ep_reference_answer = None, ep_category = None\<rparr>,
                cr_model_a = cmp_modelA s, cr_model_b = cmp_modelB s,
                cr_temperature = cmp_temperature s, cr_max_tokens = cmp_maxTokens s\<rparr>;
             sent = Fetch (Post ''/compare'' (CompareBody request))
         in case compare network request of
              Inr r \<Rightarrow> (s1\<lparr>cmp_result := Some r, cmp_loading := False\<rparr>, [sent])
            | Inl e \<Rightarrow>
                (s1\<lparr>cmp_loading := False\<rparr>, [sent, ConsoleError ''Comparison failed:'' e])))"

text \<open>
  The template: the button is disabled, and the line asking for different models is
  shown, as follows.
\<close>

definition compare_button_disabled :: "ComparePage \<Rightarrow> bool" where
  "compare_button_disabled s =
     (trim (cmp_prompt s) = [] \<or> cmp_loading s \<or> cmp_modelA s = cmp_modelB s)"

definition different_models_notice :: "ComparePage \<Rightarrow> string option" where
  "different_models_notice s =
     (if cmp_modelA s = cmp_modelB s then Some ''Please select different models to compare''
      else None)"

text \<open>
  The heading of the banner over a result:
  \<open>result.winner ? `Winner: ${result.winner}` : 'Tie'\<close>, for a winner that is absent or
  a string.
\<close>

definition banner_heading :: "string option \<Rightarrow> string" where
  "banner_heading winner =
     (case winner of
        Some w \<Rightarrow> (if w \<noteq> [] then ''Winner: '' @ w else ''Tie'')
      | None \<Rightarrow> ''Tie'')"

subsection \<open>Comparison bar (\<open>ComparisonBar.vue\<close>)\<close>

text \<open>The values come from the JSON of a result, so they are finite.\<close>

definition isABetter :: "bool option \<Rightarrow> real \<Rightarrow> real \<Rightarrow> bool" where
  "isABetter higherBetter valueA valueB =
     (case higherBetter of
        None \<Rightarrow> False
      | Some hb \<Rightarrow> (if hb then valueA > valueB else valueA < valueB))"

definition isBBetter :: "bool option \<Rightarrow> real \<Rightarrow> real \<Rightarrow> bool" where
  "isBBetter higherBetter valueA valueB =
     (case higherBetter of
        None \<Rightarrow> False
      | Some hb \<Rightarrow> (if hb then valueB > valueA else valueB < valueA))"

subsection \<open>The winner of a comparison\<close>

text \<open>
  Modelled from the spec: the comparison engine that fills \<open>winner\<close> and
  \<open>comparison_summary\<close> of a result runs on the server and is not among the sources; the
  page above only shows what it returns. By the spec, the model with the strictly higher
  quality score wins, and on equal scores there is no winner and the summary states the
  tie. The wording of the summary is not given by the spec; the model fixes one.
\<close>

definition determine_winner :: "string \<Rightarrow> real \<Rightarrow> string \<Rightarrow> real \<Rightarrow> string option" where
  "determine_winner model_a score_a model_b score_b =
     (if score_a > score_b then Some model_a
      else if score_b > score_a then Some model_b
      else None)"

definition comparison_summary :: "string \<Rightarrow> real \<Rightarrow> string \<Rightarrow> real \<Rightarrow> string" where
  "comparison_summary model_a score_a model_b score_b =
     (case determine_winner model_a score_a model_b score_b of
        Some w \<Rightarrow> w @ '' has the higher quality score''
      | None \<Rightarrow> ''Tie: both models have the same quality score'')"

fun contains :: "string \<Rightarrow> string \<Rightarrow> bool" where
  "contains sub [] = (sub = [])"
| "contains sub (c # cs) = (take (length sub) (c # cs) = sub \<or> contains sub cs)"

definition states_tie :: "string \<Rightarrow> bool" where
  "states_tie summary = contains ''Tie'' summary"

subsection \<open>Evaluation page (\<open>evaluate.vue\<close>)\<close>

record EvaluatePage =
  ev_prompt :: string
  ev_selectedModel :: string
  ev_judgeModel :: string
  ev_selectedStyle :: string
  ev_temperature :: real
  ev_maxTokens :: real
  ev_referenceAnswer :: string
  ev_enableVariance :: bool
  ev_runs :: real
  ev_currentRun :: real
  ev_loading :: bool
  ev_result :: "json option"
  ev_error :: "exn option"

text \<open>
  \<open>result.value.metrics.quality.overall_score\<close>: a chain of property reads; a read on
  \<open>undefined\<close> throws as a read on \<open>null\<close> does.
\<close>

fun read_path :: "json \<Rightarrow> string list \<Rightarrow> property_read" where
  "read_path j [] = Value j"
| "read_path j (key # keys) =
     (case property j key of
        Value v \<Rightarrow> read_path v keys
      | Missing \<Rightarrow> (if keys = [] then Missing else Throws)
      | Throws \<Rightarrow> Throws)"

text \<open>The score put into the history: the value read, absent when there is none.\<close>

fun score_read :: "property_read \<Rightarrow> json option" where
  "score_read (Value v) = Some v"
| "score_read _ = None"

text \<open>The request the page builds from its fields.\<close>

definition evaluation_request :: "EvaluatePage \<Rightarrow> EvalRequest" where
  "evaluation_request s =
     \<lparr>rq_prompt =
        \<lparr>ep_prompt = ev_prompt s, ep_expected_style = Some (ev_selectedStyle s),
         ep_reference_answer =
           (if ev_referenceAnswer s = [] then None else Some (ev_referenceAnswer s)),
         ep_category = None\<rparr>,
      rq_model = ev_selectedModel s, rq_judge_model = ev_judgeModel s,
      rq_temperature = ev_temperature s, rq_max_tokens = ev_maxTokens s,
      rq_runs = (if ev_enableVariance s then ev_runs s else 1)\<rparr>"

text \<open>
  \<open>runEvaluation\<close>. The page keeps the error it caught (the source keeps its message)
  and shows it in a toast. The only test before the request is the one on the prompt.
\<close>

definition runEvaluation ::
  "(http_request \<Rightarrow> fetch_result) \<Rightarrow> EvaluatePage \<Rightarrow> EvaluatePage \<times> effect list" where
  "runEvaluation network s =
     (if trim (ev_prompt s) = [] then (s, [])
      else
        (let s1 = s\<lparr>ev_loading := True, ev_error := None, ev_result := None,
                     ev_currentRun := 1\<rparr>;
             request = evaluation_request s;
             sent = Fetch (Post ''/evaluate'' (EvaluateBody request));
             failed = (\<lambda>s2 e.
               (s2\<lparr>ev_error := Some e, ev_loading := False\<rparr>,
                [sent, ToastError ''Evaluation failed: '' e, ConsoleError ''Evaluation failed:'' e]))
         in case evaluate network request of
              Inl e \<Rightarrow> failed s1 e
            | Inr r \<Rightarrow>
                (case read_path r [''metrics'', ''quality'', ''overall_score''] of
                   Throws \<Rightarrow> failed (s1\<lparr>ev_result := Some r\<rparr>) TypeError
                 | score \<Rightarrow>
                     (s1\<lparr>ev_result := Some r, ev_loading := False\<rparr>,
                      [sent,
                       AddToHistory
                         \<lparr>item_prompt = ev_prompt s, item_model = ev_selectedModel s,
                          item_score = score_read score,
                          item_temperature = Some (ev_temperature s)\<rparr>,
                       ToastSuccess ''Evaluation completed successfully!'']))))"

section \<open>Example inputs\<close>

text \<open>A comparison page with the same model on both sides.\<close>

definition same_model_page :: ComparePage where
  "same_model_page =
     \<lparr>cmp_prompt = ''Explain transformers'', cmp_modelA = ''mistral-small-latest'',
      cmp_modelB = ''mistral-small-latest'', cmp_temperature = 0.7, cmp_maxTokens = 1024,
      cmp_loading = False, cmp_result = None\<rparr>"

text \<open>An evaluation page whose judge is the evaluated model.\<close>

definition self_judged_page :: EvaluatePage where
  "self_judged_page =
     \<lparr>ev_prompt = ''Explain transformers'', ev_selectedModel = ''mistral-small-latest'',
      ev_judgeModel = ''mistral-small-latest'', ev_selectedStyle = ''educational'',
      ev_temperature = 0.7, ev_maxTokens = 1024, ev_referenceAnswer = [],
      ev_enableVariance = False, ev_runs = 5, ev_currentRun = 0, ev_loading = False,
      ev_result = None, ev_error = None\<rparr>"

text \<open>The statistics of a sample whose values are all zero, without the optional field.\<close>

definition zero_stats :: VarianceStats where
  "zero_stats =
     \<lparr>vs_mean = 0, vs_median = 0, vs_std_dev = 0, vs_min = 0, vs_max = 0, vs_p25 = 0,
      vs_p50 = 0, vs_p75 = 0, vs_p95 = 0, vs_coefficient_of_variation = None\<rparr>"

text \<open>\<open>JSON.parse\<close> on the few texts of the example stream below.\<close>

definition sample_parse :: "string \<Rightarrow> json option" where
  \<open>sample_parse data =
     (if data = ''{"token":"Hel"}'' then Some (JObject [(''token'', JString ''Hel'')])
      else if data = ''{"token":"lo"}'' then Some (JObject [(''token'', JString ''lo'')])
      else if data = ''{"token":""}'' then Some (JObject [(''token'', JString [])])
      else if data = ''null'' then Some JNull
      else None)\<close>

text \<open>
  A stream: a token, an empty line, the end-of-stream line and a line after it; and
  three ways the reads may cut it.
\<close>

definition sample_stream :: string where
  \<open>sample_stream =
     ''data: {"token":"Hel"}'' @ [CHR 0x0A, CHR 0x0A] @ ''data: [DONE]'' @ [CHR 0x0A]
       @ ''data: {"token":"lo"}'' @ [CHR 0x0A]\<close>

definition reads_by_line :: "string list" where
  \<open>reads_by_line =
     [''data: {"token":"Hel"}'' @ [CHR 0x0A, CHR 0x0A],
      ''data: [DONE]'' @ [CHR 0x0A] @ ''data: {"token":"lo"}'' @ [CHR 0x0A]]\<close>

definition reads_cut_in_marker :: "string list" where
  "reads_cut_in_marker = [take 30 sample_stream, drop 30 sample_stream]"

definition reads_cut_in_token :: "string list" where
  "reads_cut_in_token = [take 10 sample_stream, drop 10 sample_stream]"




declare split_ws.simps [simp del]

section \<open>Properties of the cost calculator\<close>

lemma modelPricing_at_Own:
  "map_of modelPricing model = Some p \<Longrightarrow> modelPricing_at model = Own p"
  by (simp add: modelPricing_at_def)

text \<open>
  Claim C1. For a model of the price table, the cost is \<open>input_tokens / 1000\<close> times its
  input price plus \<open>output_tokens / 1000\<close> times its output price, for all token counts
  (the non-negative ones among them); for \<open>mistral-small-latest\<close> with 1000 input and 1000
  output tokens it is 0.008.
\<close>

theorem totalCost_price_formula:
  "(map_of modelPricing model = Some p \<longrightarrow>
      totalCost model input_tokens output_tokens =
        Num (input_tokens / 1000 * pricing_input p + output_tokens / 1000 * pricing_output p))
   \<and> totalCost ''mistral-small-latest'' 1000 1000 = Num 0.008"
proof (intro conjI impI)
  assume "map_of modelPricing model = Some p"
  then have "modelPricing_at model = Own p" by (rule modelPricing_at_Own)
  then show "totalCost model input_tokens output_tokens =
        Num (input_tokens / 1000 * pricing_input p + output_tokens / 1000 * pricing_output p)"
    by (simp add: totalCost_def inputCost_def outputCost_def)
next
  have "modelPricing_at ''mistral-small-latest'' =
      Own \<lparr>pricing_name = ''Mistral Small'', pricing_input = 0.002, pricing_output = 0.006\<rparr>"
    by (simp add: modelPricing_at_def modelPricing_def)
  then show "totalCost ''mistral-small-latest'' 1000 1000 = Num 0.008"
    by (simp add: totalCost_def inputCost_def outputCost_def)
qed

theorem totalCost_price_formula_witness:
  "map_of modelPricing ''mistral-large-latest'' =
     Some \<lparr>pricing_name = ''Mistral Large'', pricing_input = 0.004, pricing_output = 0.012\<rparr>
   \<and> totalCost ''mistral-large-latest'' 500 2000 = Num 0.026"
proof -
  have h: "map_of modelPricing ''mistral-large-latest'' =
     Some \<lparr>pricing_name = ''Mistral Large'', pricing_input = 0.004, pricing_output = 0.012\<rparr>"
    by (simp add: modelPricing_def)
  from totalCost_price_formula
    [of "''mistral-large-latest''" _ 500 2000, THEN conjunct1, rule_format, OF h]
  have "totalCost ''mistral-large-latest'' 500 2000 = Num 0.026" by simp
  with h show ?thesis by simp
qed

text \<open>
  When the lookup gives nothing, both costs are 0 and the template names the model
  \<open>Unknown model\<close>.
\<close>

lemma unknown_model_costs_nothing:
  "modelPricing_at model = Undefined \<Longrightarrow>
     totalCost model tokens maxTokens = Num 0 \<and> pricing_label model = ''Unknown model''"
  by (simp add: totalCost_def inputCost_def outputCost_def pricing_label_def)

text \<open>
  Claim C5 says that every model id outside the price table costs exactly 0. The id
  \<open>constructor\<close> is outside the table, but the lookup finds the member every object
  inherits under that name; the guard \<open>if (!pricing) return 0\<close> lets it pass, its
  \<open>input\<close> and \<open>output\<close> are \<open>undefined\<close>, and the cost is \<open>NaN\<close>. The template then
  names the model \<open>Object\<close>.
\<close>

theorem inherited_key_cost_is_NaN:
  "map_of modelPricing ''constructor'' = None
   \<and> calculator_totalCost
        \<lparr>cp_prompt = ''hello'', cp_model = ''constructor'', cp_maxTokens = 1024, cp_runs = 1\<rparr>
       = NaN
   \<and> pricing_label ''constructor'' = ''Object''"
  by (simp add: calculator_totalCost_def totalCost_def inputCost_def outputCost_def
      pricing_label_def modelPricing_at_def modelPricing_def Object_prototype_def)

subsection \<open>The token counts of the calculator\<close>

lemma count_words_spaces: "\<forall>c\<in>set zs. is_space c \<Longrightarrow> count_words b zs = 0"
  by (induction zs arbitrary: b) auto

lemma count_words_append_spaces:
  "\<forall>c\<in>set zs. is_space c \<Longrightarrow> count_words b (xs @ zs) = count_words b xs"
  by (induction xs arbitrary: b) (auto simp: count_words_spaces)

lemma count_words_dropWhile: "count_words False (dropWhile is_space s) = count_words False s"
  by (induction s) auto

lemma count_words_after_word:
  "\<forall>c\<in>set p. \<not> is_space c \<Longrightarrow> r = [] \<or> is_space (hd r) \<Longrightarrow>
     count_words True (p @ r) = count_words False r"
proof (induction p)
  case Nil
  then show ?case by (cases r) auto
next
  case (Cons c p)
  then show ?case by simp
qed

lemma count_words_word:
  "\<forall>c\<in>set p. \<not> is_space c \<Longrightarrow> p \<noteq> [] \<Longrightarrow> r = [] \<or> is_space (hd r) \<Longrightarrow>
     count_words False (p @ r) = Suc (count_words False r)"
  by (cases p) (auto simp: count_words_after_word)

text \<open>Trimming removes no word.\<close>

lemma word_count_trim: "word_count (trim s) = word_count s"
proof -
  let ?u = "dropWhile is_space s"
  have "?u = rev (dropWhile is_space (rev ?u)) @ rev (takeWhile is_space (rev ?u))"
    by (metis rev_append rev_rev_ident takeWhile_dropWhile_id)
  moreover have "\<forall>c\<in>set (rev (takeWhile is_space (rev ?u))). is_space c"
    by (auto dest: set_takeWhileD)
  ultimately have "count_words False ?u = count_words False (rev (dropWhile is_space (rev ?u)))"
    by (metis count_words_append_spaces)
  then show ?thesis
    by (simp add: word_count_def trim_def count_words_dropWhile)
qed

lemma bare_trim: "bare (trim s)"
proof (cases "trim s = []")
  case True
  then show ?thesis by (simp add: bare_def)
next
  case False
  let ?u = "dropWhile is_space s"
  let ?t = "rev (dropWhile is_space (rev ?u))"
  have t: "trim s = ?t" by (simp add: trim_def)
  have ne: "dropWhile is_space (rev ?u) \<noteq> []" using False t by simp
  have "\<not> is_space (hd (dropWhile is_space (rev ?u)))"
    using ne by (rule hd_dropWhile)
  then have l: "\<not> is_space (last ?t)" using ne by (simp add: last_rev)
  have u: "?u = ?t @ rev (takeWhile is_space (rev ?u))"
    by (metis rev_append rev_rev_ident takeWhile_dropWhile_id)
  have tne: "?t \<noteq> []" using ne by simp
  have une: "?u \<noteq> []" using u tne by (metis append_is_Nil_conv)
  have "hd ?u = hd ?t" using u tne by (metis hd_append2)
  moreover have "\<not> is_space (hd ?u)" using une by (rule hd_dropWhile)
  ultimately have "\<not> is_space (hd ?t)" by simp
  with l t show ?thesis by (simp add: bare_def)
qed

lemma word_count_pos: "t \<noteq> [] \<Longrightarrow> \<not> is_space (hd t) \<Longrightarrow> 1 \<le> word_count t"
  by (cases t) (simp_all add: word_count_def)

text \<open>
  On a string with no white space at its ends, \<open>split\<close> gives one piece per word, and
  one (empty) piece when there is no word.
\<close>

lemma length_split_ws_bare: "bare t \<Longrightarrow> length (split_ws t) = max 1 (word_count t)"
proof (induction t rule: split_ws.induct)
  case (1 s)
  let ?piece = "takeWhile (\<lambda>c. \<not> is_space c) s"
  let ?rest = "dropWhile (\<lambda>c. \<not> is_space c) s"
  have s: "s = ?piece @ ?rest" by simp
  have pw: "\<forall>c\<in>set ?piece. \<not> is_space c" by (auto dest: set_takeWhileD)
  show ?case
  proof (cases "?rest = []")
    case True
    have "split_ws s = [?piece]"
      by (subst split_ws.simps) (simp only: Let_def True simp_thms if_True)
    then have len: "length (split_ws s) = 1" by simp
    have "word_count s \<le> 1"
    proof (cases "s = []")
      case True then show ?thesis by (simp add: word_count_def)
    next
      case False
      from True s have ps: "?piece = s" by (metis append_Nil2)
      with False have "?piece \<noteq> []" by metis
      from count_words_word [OF pw this, of "[]"]
      have "count_words False (?piece @ []) = Suc (count_words False [])" by simp
      then show ?thesis unfolding word_count_def append_Nil2 ps by simp
    qed
    with len show ?thesis by simp
  next
    case False
    let ?rest' = "dropWhile is_space ?rest"
    from False have sne: "s \<noteq> []" by auto
    with "1.prems" have hs: "\<not> is_space (hd s)" and ls: "\<not> is_space (last s)"
      by (auto simp: bare_def)
    have pne: "?piece \<noteq> []" using sne hs by (cases s) auto
    have rs: "is_space (hd ?rest)" using hd_dropWhile [OF False] by simp
    have "last s = last ?rest" using s False by (metis last_appendR)
    with ls have lr: "\<not> is_space (last ?rest)" by simp
    have "last ?rest \<in> set ?rest" using False by simp
    with lr have r'ne: "?rest' \<noteq> []" by (auto simp: dropWhile_eq_Nil_conv)
    have h': "\<not> is_space (hd ?rest')" using r'ne by (rule hd_dropWhile)
    have "?rest = takeWhile is_space ?rest @ ?rest'" by simp
    then have "last ?rest = last ?rest'" using r'ne by (metis last_appendR)
    with lr have "\<not> is_space (last ?rest')" by simp
    with h' have "bare ?rest'" by (simp add: bare_def)
    from "1.IH" [OF refl refl False this]
    have ih: "length (split_ws ?rest') = max 1 (word_count ?rest')" .
    have pos: "1 \<le> word_count ?rest'"
      using r'ne h' by (rule word_count_pos)
    have "split_ws s = ?piece # split_ws ?rest'"
      by (subst split_ws.simps) (simp only: Let_def False if_False)
    then have len: "length (split_ws s) = Suc (length (split_ws ?rest'))"
      by (simp only: length_Cons)
    have "word_count s = count_words False (?piece @ ?rest)" by (simp add: word_count_def)
    also have "\<dots> = Suc (count_words False ?rest)"
      using pw pne rs by (intro count_words_word) auto
    also have "\<dots> = Suc (word_count ?rest')"
      by (simp add: word_count_def count_words_dropWhile)
    finally have "word_count s = Suc (word_count ?rest')" .
    with len ih pos show ?thesis by simp
  qed
qed

lemma estimatedInputTokens_word_count:
  "estimatedInputTokens prompt = nat \<lceil>real (max 1 (word_count prompt)) * 1.3\<rceil>"
  by (simp add: estimatedInputTokens_def Let_def length_split_ws_bare [OF bare_trim]
      word_count_trim)

lemma ceiling_13: "nat \<lceil>real w * 1.3\<rceil> = (13 * w + 9) div 10"
proof -
  have "real w * 1.3 = real_of_int (13 * int w) / real_of_int 10" by simp
  then have "\<lceil>real w * 1.3\<rceil> = \<lceil>real_of_int (13 * int w) / real_of_int 10\<rceil>"
    by (simp only:)
  also have "\<dots> = - ((- (13 * int w)) div 10)"
    by (simp only: ceiling_divide_eq_div)
  also have "\<dots> = (13 * int w + 9) div 10" by linarith
  finally show ?thesis by (simp add: nat_div_distrib nat_add_distrib nat_mult_distrib)
qed

lemma estimatedInputTokens_hello: "estimatedInputTokens ''hello'' = 2"
  by (simp add: estimatedInputTokens_word_count ceiling_13 word_count_def is_space_def)

lemma estimatedInputTokens_hello_big_world: "estimatedInputTokens ''hello big world'' = 4"
  by (simp add: estimatedInputTokens_word_count ceiling_13 word_count_def is_space_def)

text \<open>
  Claim C8 says that the token counts fed into the cost estimate are never derived from
  the prompt text. The calculator has no other source for them: two prompts, with the
  same model and the same \<open>max_tokens\<close>, get different input token counts and different
  costs.
\<close>

theorem cost_tokens_depend_on_prompt:
  "estimatedInputTokens ''hello'' = 2
   \<and> estimatedInputTokens ''hello big world'' = 4
   \<and> calculator_totalCost
        \<lparr>cp_prompt = ''hello'', cp_model = ''mistral-small-latest'', cp_maxTokens = 1000,
         cp_runs = 1\<rparr> = Num 0.006004
   \<and> calculator_totalCost
        \<lparr>cp_prompt = ''hello big world'', cp_model = ''mistral-small-latest'',
         cp_maxTokens = 1000, cp_runs = 1\<rparr> = Num 0.006008"
  by (simp add: calculator_totalCost_def estimatedInputTokens_hello
      estimatedInputTokens_hello_big_world totalCost_def inputCost_def outputCost_def
      modelPricing_at_def modelPricing_def)

text \<open>
  Claim C8, amended. The cost calculator estimates its token counts from its own
  properties: the input token count is the ceiling of 1.3 times the number of words of
  the prompt (one for a prompt without words), the output token count is \<open>maxTokens\<close>, and
  the cost shown is the cost of these two counts.
\<close>

theorem calculator_tokens_estimated_from_words:
  "estimatedInputTokens prompt = nat \<lceil>real (max 1 (word_count prompt)) * 1.3\<rceil>
   \<and> calculator_totalCost props =
       totalCost (cp_model props)
         (real (nat \<lceil>real (max 1 (word_count (cp_prompt props))) * 1.3\<rceil>))
         (cp_maxTokens props)"
  by (simp add: calculator_totalCost_def estimatedInputTokens_word_count)

section \<open>Properties of the variance chart\<close>

text \<open>With a mean that is not zero and no coefficient given, the quotient is the real one.\<close>

lemma cv_nonzero_mean:
  "vs_mean stats \<noteq> 0 \<Longrightarrow> vs_coefficient_of_variation stats = None \<Longrightarrow>
     cv stats = Num (vs_std_dev stats / vs_mean stats)"
  by (simp add: cv_def)

text \<open>
  With a zero mean and no coefficient given, the quotient is an infinity or \<open>NaN\<close>, and
  for a standard deviation that is not negative the chart reports the highest variance.
\<close>

lemma cv_zero_mean:
  "vs_mean stats = 0 \<Longrightarrow> vs_coefficient_of_variation stats = None \<Longrightarrow>
     cv stats = inf_of_sign (vs_std_dev stats)"
  by (simp add: cv_def)

lemma zero_mean_reports_poor:
  "vs_mean stats = 0 \<Longrightarrow> vs_coefficient_of_variation stats = None \<Longrightarrow>
     0 \<le> vs_std_dev stats \<Longrightarrow> varianceQuality stats = Poor"
  by (simp add: varianceQuality_def cv_zero_mean inf_of_sign_def)

text \<open>
  Claim C6 says that the quotient \<open>std_dev / mean\<close> is computed only for a mean that is
  not zero. For the statistics of an all-zero sample that come without the coefficient,
  the chart divides 0 by the mean 0, gets \<open>NaN\<close>, fails every comparison and reports the
  highest variance.
\<close>

theorem zero_mean_is_divided_by:
  "vs_mean zero_stats = 0
   \<and> cv zero_stats = js_div (Num (vs_std_dev zero_stats)) (Num (vs_mean zero_stats))
   \<and> cv zero_stats = NaN
   \<and> varianceQuality zero_stats = Poor"
  by (simp add: cv_def varianceQuality_def inf_of_sign_def zero_stats_def)

section \<open>Properties of the API client\<close>




subsection \<open>The streamed response\<close>

lemma process_line_Done: "process_line parse line = Done \<longleftrightarrow> line = ''data: [DONE]''"
proof
  assume "process_line parse line = Done"
  then have "take 6 line = ''data: '' \<and> drop 6 line = ''[DONE]''"
    by (auto simp: process_line_def Let_def split: if_splits option.splits property_read.splits)
  then have "take 6 line @ drop 6 line = ''data: '' @ ''[DONE]''" by simp
  then show "line = ''data: [DONE]''" by simp
next
  assume "line = ''data: [DONE]''"
  then show "process_line parse line = Done" by (simp add: process_line_def)
qed

lemma process_line_Yields:
  "line \<noteq> ''data: [DONE]'' \<Longrightarrow>
   process_line parse line =
     Yields (case token_of_line parse line of Some t \<Rightarrow> [t] | None \<Rightarrow> [])"
  using process_line_Done [of parse line]
  by (auto simp: process_line_def token_of_line_def Let_def
      split: option.splits property_read.splits)

text \<open>
  The loop over the lines of a chunk yields the tokens of the lines before the first
  end-of-stream line, and returns from the generator exactly when there is such a line.
\<close>

lemma process_lines_eq:
  "process_lines parse lines =
     (List.map_filter (token_of_line parse)
        (takeWhile (\<lambda>line. line \<noteq> ''data: [DONE]'') lines),
      ''data: [DONE]'' \<in> set lines)"
proof (induction lines)
  case Nil
  show ?case by simp
next
  case (Cons line lines)
  show ?case
  proof (cases "line = ''data: [DONE]''")
    case True
    then have "process_line parse line = Done" by (simp add: process_line_Done)
    with True show ?thesis by simp
  next
    case False
    from process_line_Yields [OF False]
    show ?thesis using False Cons.IH
      by (auto split: option.splits)
  qed
qed

lemma map_filter_append:
  "List.map_filter f (xs @ ys) = List.map_filter f xs @ List.map_filter f ys"
  by (simp add: List.map_filter_def)

text \<open>The loops, said without loops.\<close>

lemma read_loop_eq: "read_loop parse chunks = tokens_read_by_read parse chunks"
proof (induction chunks)
  case Nil
  show ?case by (simp add: tokens_read_by_read_def)
next
  case (Cons chunk chunks)
  show ?case
  proof (cases "''data: [DONE]'' \<in> set (split_lines chunk)")
    case True
    then have "takeWhile (\<lambda>line. line \<noteq> ''data: [DONE]'')
          (split_lines chunk @ concat (map split_lines chunks))
        = takeWhile (\<lambda>line. line \<noteq> ''data: [DONE]'') (split_lines chunk)"
      by (intro takeWhile_append1 [of "''data: [DONE]''"]) simp_all
    with True show ?thesis
      by (simp add: process_lines_eq tokens_read_by_read_def)
  next
    case False
    then have all: "\<forall>l \<in> set (split_lines chunk). l \<noteq> ''data: [DONE]''" by blast
    then have tw: "takeWhile (\<lambda>line. line \<noteq> ''data: [DONE]'') (split_lines chunk)
        = split_lines chunk"
      by (simp add: takeWhile_eq_all_conv)
    show ?thesis
      using False Cons.IH all
      by (simp add: process_lines_eq tokens_read_by_read_def takeWhile_append2 tw
          map_filter_append)
  qed
qed

text \<open>Once a chunk holds the end-of-stream line, the chunks after it are never read.\<close>

lemma read_loop_stops_at_done:
  "''data: [DONE]'' \<in> set (split_lines chunk) \<Longrightarrow>
     read_loop parse (before @ chunk # after) = read_loop parse (before @ [chunk])"
  by (induction before) (simp_all add: process_lines_eq split: prod.splits)

text \<open>
  When every read ends where a line ends, the lines of the reads are the lines of the
  stream, with an empty line more after each read, and the consumer yields the tokens of
  the stream.
\<close>

lemma split_lines_not_Nil: "split_lines s \<noteq> []"
  by (induction s) (auto split: list.splits)

lemma split_lines_append_line:
  "split_lines (xs @ CHR 0x0A # ys) = split_lines xs @ split_lines ys"
proof (induction xs)
  case Nil
  show ?case by simp
next
  case (Cons c xs)
  obtain l ls where "split_lines xs = l # ls"
    using split_lines_not_Nil [of xs] by (cases "split_lines xs") auto
  with Cons show ?case by simp
qed

lemma tokens_skip_empty_line:
  "List.map_filter (token_of_line parse)
     (takeWhile (\<lambda>line. line \<noteq> ''data: [DONE]'') (A @ [] # B))
   = List.map_filter (token_of_line parse)
     (takeWhile (\<lambda>line. line \<noteq> ''data: [DONE]'') (A @ B))"
proof (cases "\<forall>l \<in> set A. l \<noteq> ''data: [DONE]''")
  case True
  then show ?thesis
    by (simp add: takeWhile_append2 map_filter_append token_of_line_def)
next
  case False
  then obtain l where "l \<in> set A" "\<not> l \<noteq> ''data: [DONE]''" by blast
  then show ?thesis by (simp add: takeWhile_append1)
qed

lemma tokens_same_tail:
  assumes "List.map_filter f (takeWhile P B') = List.map_filter f (takeWhile P B)"
  shows "List.map_filter f (takeWhile P (A @ B')) = List.map_filter f (takeWhile P (A @ B))"
proof (cases "\<forall>l \<in> set A. P l")
  case True
  with assms show ?thesis by (simp add: takeWhile_append2 map_filter_append)
next
  case False
  then obtain l where "l \<in> set A" "\<not> P l" by blast
  then show ?thesis by (simp add: takeWhile_append1)
qed

lemma whole_lines_reads:
  "\<forall>chunk \<in> set chunks. whole_lines chunk \<Longrightarrow>
     read_loop parse chunks = tokens_until_done parse chunks"
proof -
  assume whole: "\<forall>chunk \<in> set chunks. whole_lines chunk"
  let ?P = "\<lambda>line. line \<noteq> ''data: [DONE]''"
  let ?f = "token_of_line parse"
  from whole
  have "List.map_filter ?f (takeWhile ?P (concat (map split_lines chunks)))
      = List.map_filter ?f (takeWhile ?P (split_lines (concat chunks)))"
  proof (induction chunks)
    case Nil
    show ?case by (simp add: token_of_line_def)
  next
    case (Cons chunk chunks)
    then have ih: "List.map_filter ?f (takeWhile ?P (concat (map split_lines chunks)))
      = List.map_filter ?f (takeWhile ?P (split_lines (concat chunks)))"
      by simp
    from Cons.prems have "whole_lines chunk" by simp
    then show ?case
    proof (cases "chunk = []")
      case True
      have "List.map_filter ?f (takeWhile ?P ([] @ [] # concat (map split_lines chunks)))
          = List.map_filter ?f (takeWhile ?P ([] @ concat (map split_lines chunks)))"
        by (rule tokens_skip_empty_line)
      with True ih show ?thesis by simp
    next
      case False
      with \<open>whole_lines chunk\<close> have "last chunk = CHR 0x0A" by (simp add: whole_lines_def)
      with False have chunk: "chunk = butlast chunk @ [CHR 0x0A]"
        by (metis append_butlast_last_id)
      let ?A = "split_lines (butlast chunk)"
      have a: "split_lines chunk = ?A @ [[]]"
        by (subst chunk) (simp add: split_lines_append_line)
      have b: "split_lines (concat (chunk # chunks)) = ?A @ split_lines (concat chunks)"
        by (subst chunk) (simp add: split_lines_append_line)
      have "List.map_filter ?f (takeWhile ?P (?A @ [] # concat (map split_lines chunks)))
          = List.map_filter ?f (takeWhile ?P (?A @ concat (map split_lines chunks)))"
        by (rule tokens_skip_empty_line)
      also have "\<dots> = List.map_filter ?f (takeWhile ?P (?A @ split_lines (concat chunks)))"
        using ih by (rule tokens_same_tail)
      finally have e: "List.map_filter ?f
            (takeWhile ?P (?A @ [] # concat (map split_lines chunks)))
          = List.map_filter ?f (takeWhile ?P (?A @ split_lines (concat chunks)))" .
      have lhs: "concat (map split_lines (chunk # chunks))
          = ?A @ [] # concat (map split_lines chunks)"
        by (simp add: a)
      show ?thesis unfolding lhs b by (rule e)
    qed
  qed
  then show ?thesis
    by (simp add: read_loop_eq tokens_read_by_read_def tokens_until_done_def)
qed

text \<open>
  Claim C7 says that the consumer yields the tokens of the stream's well-formed data
  chunks and nothing after the end-of-stream marker. It holds for reads that end where
  lines end. The same stream read in two parts that cut the marker line gives the token
  after the marker too, and read in two parts that cut the first data line it loses
  that token: the loop splits each read by itself and keeps nothing of a line that a read
  leaves unfinished.
\<close>

theorem streamEvaluate_cut_reads:
  "concat reads_by_line = sample_stream
   \<and> concat reads_cut_in_marker = sample_stream
   \<and> concat reads_cut_in_token = sample_stream
   \<and> tokens_until_done sample_parse reads_by_line = [JString ''Hel'']
   \<and> tokens_until_done sample_parse reads_cut_in_marker = [JString ''Hel'']
   \<and> tokens_until_done sample_parse reads_cut_in_token = [JString ''Hel'']
   \<and> streamEvaluate sample_parse (Some reads_by_line) = [JString ''Hel'']
   \<and> streamEvaluate sample_parse (Some reads_cut_in_marker) = [JString ''Hel'', JString ''lo'']
   \<and> streamEvaluate sample_parse (Some reads_cut_in_token) = []"
proof -
  have 1: "concat reads_by_line = sample_stream"
    by (simp add: reads_by_line_def sample_stream_def)
  have 2: "concat reads_cut_in_marker = sample_stream"
    by (simp add: reads_cut_in_marker_def)
  have 3: "concat reads_cut_in_token = sample_stream"
    by (simp add: reads_cut_in_token_def)
  have t: "List.map_filter (token_of_line sample_parse)
       (takeWhile (\<lambda>line. line \<noteq> ''data: [DONE]'') (split_lines sample_stream))
     = [JString ''Hel'']"
    by (simp add: sample_stream_def token_of_line_def sample_parse_def List.map_filter_def)
  have 4: "streamEvaluate sample_parse (Some reads_by_line) = [JString ''Hel'']"
    by (simp add: streamEvaluate_def read_loop_eq tokens_read_by_read_def reads_by_line_def
        token_of_line_def sample_parse_def List.map_filter_def)
  have 5: "streamEvaluate sample_parse (Some reads_cut_in_marker)
      = [JString ''Hel'', JString ''lo'']"
    by (simp add: streamEvaluate_def read_loop_eq tokens_read_by_read_def
        reads_cut_in_marker_def sample_stream_def token_of_line_def sample_parse_def
        List.map_filter_def)
  have 6: "streamEvaluate sample_parse (Some reads_cut_in_token) = []"
    by (simp add: streamEvaluate_def read_loop_eq tokens_read_by_read_def
        reads_cut_in_token_def sample_stream_def token_of_line_def sample_parse_def
        List.map_filter_def)
  from 1 2 3 t 4 5 6 show ?thesis by (simp add: tokens_until_done_def)
qed

section \<open>Properties of the pages\<close>

subsection \<open>Comparison page\<close>

text \<open>
  Claim C3. When both sides name the same model, \<open>runComparison\<close> returns at once: no
  request is sent and the page, its result included, is as before; the button is
  disabled and the page asks for different models.
\<close>

theorem runComparison_same_model_rejected:
  "cmp_modelA s = cmp_modelB s \<Longrightarrow>
     runComparison network s = (s, [])
     \<and> compare_button_disabled s
     \<and> different_models_notice s = Some ''Please select different models to compare''"
  by (simp add: runComparison_def compare_button_disabled_def different_models_notice_def)

theorem runComparison_same_model_rejected_witness:
  "cmp_modelA same_model_page = cmp_modelB same_model_page
   \<and> runComparison (\<lambda>request. Response 200 (Some (JObject []))) same_model_page
       = (same_model_page, [])
   \<and> compare_button_disabled same_model_page
   \<and> different_models_notice same_model_page
       = Some ''Please select different models to compare''"
proof -
  have h: "cmp_modelA same_model_page = cmp_modelB same_model_page"
    by (simp add: same_model_page_def)
  from runComparison_same_model_rejected
    [OF h, of "\<lambda>request. Response 200 (Some (JObject []))"] h
  show ?thesis by simp
qed

text \<open>With a prompt and two different models the request is sent, with these models.\<close>

lemma runComparison_sends:
  "trim (cmp_prompt s) \<noteq> [] \<Longrightarrow> cmp_modelA s \<noteq> cmp_modelB s \<Longrightarrow>
     \<exists>request rest.
        snd (runComparison network s) = Fetch (Post ''/compare'' (CompareBody request)) # rest
        \<and> cr_model_a request = cmp_modelA s \<and> cr_model_b request = cmp_modelB s"
  by (auto simp: runComparison_def Let_def split: sum.splits)

subsection \<open>Evaluation page\<close>

lemma trim_example: "trim ''Explain transformers'' = ''Explain transformers''"
  by (simp add: trim_def is_space_def)

text \<open>
  With a prompt that is not blank, the first thing \<open>runEvaluation\<close> does outside the page
  is to send the request, with the model and the judge model of the two selects, equal
  or not.
\<close>

lemma runEvaluation_sends:
  assumes "trim (ev_prompt s) \<noteq> []"
  shows "hd (snd (runEvaluation network s))
           = Fetch (Post ''/evaluate'' (EvaluateBody (evaluation_request s)))
         \<and> rq_model (evaluation_request s) = ev_selectedModel s
         \<and> rq_judge_model (evaluation_request s) = ev_judgeModel s"
proof -
  have "hd (snd (runEvaluation network s))
           = Fetch (Post ''/evaluate'' (EvaluateBody (evaluation_request s)))"
  proof (cases "evaluate network (evaluation_request s)")
    case (Inl e)
    with assms show ?thesis by (simp add: runEvaluation_def Let_def)
  next
    case (Inr r)
    with assms show ?thesis
      by (cases "read_path r [''metrics'', ''quality'', ''overall_score'']")
        (simp_all add: runEvaluation_def Let_def)
  qed
  then show ?thesis by (simp add: evaluation_request_def)
qed

text \<open>
  Claim C4 says that a request whose judge is the evaluated model is rejected before any
  network call. On the page where both are \<open>mistral-small-latest\<close>, the first thing
  \<open>runEvaluation\<close> does outside the page, whatever the network answers, is to send the
  request, with \<open>judge_model\<close> equal to \<open>model\<close>.
\<close>

theorem runEvaluation_sends_self_judged_request:
  "ev_judgeModel self_judged_page = ev_selectedModel self_judged_page
   \<and> hd (snd (runEvaluation network self_judged_page)) =
       Fetch (Post ''/evaluate'' (EvaluateBody
         \<lparr>rq_prompt =
            \<lparr>ep_prompt = ''Explain transformers'', ep_expected_style = Some ''educational'',
             ep_reference_answer = None, ep_category = None\<rparr>,
          rq_model = ''mistral-small-latest'', rq_judge_model = ''mistral-small-latest'',
          rq_temperature = 0.7, rq_max_tokens = 1024, rq_runs = 1\<rparr>))"
proof -
  have "trim (ev_prompt self_judged_page) \<noteq> []"
    by (simp add: self_judged_page_def trim_example)
  from runEvaluation_sends [OF this, of network]
  show ?thesis by (simp add: evaluation_request_def self_judged_page_def)
qed

text \<open>The test of \<open>runEvaluation\<close> is on the prompt alone: a blank prompt sends nothing.\<close>

lemma runEvaluation_blank_prompt:
  "trim (ev_prompt s) = [] \<Longrightarrow> runEvaluation network s = (s, [])"
  by (simp add: runEvaluation_def)

subsection \<open>The winner of a comparison\<close>

text \<open>
  Claim C2. The model with the strictly higher score is the winner; on equal scores
  there is no winner and the summary states the tie. With 8.0 against 8.0 there is no
  winner; with 7.5 for A against 8.2 for B the winner is B.
\<close>

theorem winner_rule:
  "(score_b < score_a \<longrightarrow> determine_winner model_a score_a model_b score_b = Some model_a)
   \<and> (score_a < score_b \<longrightarrow> determine_winner model_a score_a model_b score_b = Some model_b)
   \<and> (score_a = score_b \<longrightarrow>
        determine_winner model_a score_a model_b score_b = None
        \<and> states_tie (comparison_summary model_a score_a model_b score_b))
   \<and> determine_winner model_a 8.0 model_b 8.0 = None
   \<and> determine_winner model_a 7.5 model_b 8.2 = Some model_b"
  by (simp add: determine_winner_def comparison_summary_def states_tie_def)

theorem winner_rule_witness:
  "determine_winner ''mistral-small-latest'' 9.1 ''mistral-large-latest'' 8.2
     = Some ''mistral-small-latest''
   \<and> determine_winner ''mistral-small-latest'' 7.5 ''mistral-large-latest'' 8.2
     = Some ''mistral-large-latest''
   \<and> determine_winner ''mistral-small-latest'' 8.0 ''mistral-large-latest'' 8.0 = None
   \<and> states_tie (comparison_summary ''mistral-small-latest'' 8.0 ''mistral-large-latest'' 8.0)"
  using
    winner_rule [where score_b = "8.2" and score_a = "9.1"
      and model_a = "''mistral-small-latest''" and model_b = "''mistral-large-latest''"]
    winner_rule [where score_b = "8.2" and score_a = "7.5"
      and model_a = "''mistral-small-latest''" and model_b = "''mistral-large-latest''"]
    winner_rule [where score_b = "8.0" and score_a = "8.0"
      and model_a = "''mistral-small-latest''" and model_b = "''mistral-large-latest''"]
  by simp

text \<open>
  What the sources show of a result agrees with the rule: the bar of the quality scores
  marks A as better exactly when A is this winner (and B likewise), marks neither on
  equal scores, and the banner over a result without winner reads \<open>Tie\<close>.
\<close>

lemma comparison_bar_marks_winner:
  "model_a \<noteq> model_b \<Longrightarrow>
     isABetter (Some True) score_a score_b
       = (determine_winner model_a score_a model_b score_b = Some model_a)
     \<and> isBBetter (Some True) score_a score_b
       = (determine_winner model_a score_a model_b score_b = Some model_b)"
  by (auto simp: isABetter_def isBBetter_def determine_winner_def)

lemma comparison_bar_tie:
  "\<not> isABetter higherBetter score score \<and> \<not> isBBetter higherBetter score score"
  by (simp add: isABetter_def isBBetter_def split: option.splits)

lemma banner_heading_tie:
  "banner_heading (determine_winner model_a score model_b score) = ''Tie''"
  by (simp add: banner_heading_def determine_winner_def)

section \<open>Properties of the history\<close>







end
